theory Spec2Isabelle
  imports Complex_Main
begin

section \<open>The platform: numbers and the Date object\<close>

text \<open>
  The functions of \<^verbatim>\<open>core-js-dates-tasks.js\<close> are written against the built-in
  \<^verbatim>\<open>Date\<close> object. The embedding models that object after the ECMAScript
  standard (section "Date Objects"): a date holds a time value, a whole number of
  milliseconds since 1970-01-01T00:00:00Z, or \<^verbatim>\<open>NaN\<close> (an invalid date).

  A number that is either an integer or \<^verbatim>\<open>NaN\<close> is an \<open>int option\<close>, with
  \<open>None\<close> for \<^verbatim>\<open>NaN\<close>; where the source divides, the quotient is a \<open>rat option\<close>.
  All quantities that occur stay far below \<open>2^53\<close>, where the doubles of the source
  are exact on integers.
\<close>

type_synonym number = "int option"

type_synonym Date = "int option"

definition msPerDay :: int where
  "msPerDay = 86400000"

definition msPerHour :: int where
  "msPerHour = 3600000"

definition msPerMinute :: int where
  "msPerMinute = 60000"

definition msPerSecond :: int where
  "msPerSecond = 1000"

definition Day :: "int \<Rightarrow> int" where
  "Day t = t div msPerDay"

definition TimeWithinDay :: "int \<Rightarrow> int" where
  "TimeWithinDay t = t mod msPerDay"

definition DaysInYear :: "int \<Rightarrow> int" where
  "DaysInYear y =
     (if y mod 4 \<noteq> 0 then 365
      else if y mod 100 \<noteq> 0 then 366
      else if y mod 400 \<noteq> 0 then 365
      else 366)"

definition DayFromYear :: "int \<Rightarrow> int" where
  "DayFromYear y =
     365 * (y - 1970) + (y - 1969) div 4 - (y - 1901) div 100 + (y - 1601) div 400"

text \<open>
  The standard defines \<^verbatim>\<open>YearFromTime(t)\<close> as the largest year \<open>y\<close> whose first
  day is not after \<open>t\<close>. \<open>YearFromDay\<close> computes it by counting whole cycles of 400,
  100, 4 and 1 years from 1 January 2001 (day number 11323); lemma
  \<open>YearFromDay_bounds\<close> below shows that it is that year.
\<close>

definition YearFromDay :: "int \<Rightarrow> int" where
  "YearFromDay d =
     (let z = d - 11323;
          n400 = z div 146097;
          r400 = z mod 146097;
          n100 = min (r400 div 36524) 3;
          r100 = r400 - 36524 * n100;
          n4 = r100 div 1461;
          r4 = r100 mod 1461;
          n1 = min (r4 div 365) 3
      in 2001 + 400 * n400 + 100 * n100 + 4 * n4 + n1)"

definition YearFromTime :: "int \<Rightarrow> int" where
  "YearFromTime t = YearFromDay (Day t)"

definition InLeapYear :: "int \<Rightarrow> int" where
  "InLeapYear t = (if DaysInYear (YearFromTime t) = 366 then 1 else 0)"

definition DayWithinYear :: "int \<Rightarrow> int" where
  "DayWithinYear t = Day t - DayFromYear (YearFromTime t)"

definition MonthFromTime :: "int \<Rightarrow> int" where
  "MonthFromTime t =
     (let d = DayWithinYear t; l = InLeapYear t
      in if d < 31 then 0
         else if d < 59 + l then 1
         else if d < 90 + l then 2
         else if d < 120 + l then 3
         else if d < 151 + l then 4
         else if d < 181 + l then 5
         else if d < 212 + l then 6
         else if d < 243 + l then 7
         else if d < 273 + l then 8
         else if d < 304 + l then 9
         else if d < 334 + l then 10
         else 11)"

definition DateFromTime :: "int \<Rightarrow> int" where
  "DateFromTime t =
     (let d = DayWithinYear t; l = InLeapYear t; m = MonthFromTime t
      in if m = 0 then d + 1
         else if m = 1 then d - 30
         else if m = 2 then d - 58 - l
         else if m = 3 then d - 89 - l
         else if m = 4 then d - 119 - l
         else if m = 5 then d - 150 - l
         else if m = 6 then d - 180 - l
         else if m = 7 then d - 211 - l
         else if m = 8 then d - 242 - l
         else if m = 9 then d - 272 - l
         else if m = 10 then d - 303 - l
         else d - 333 - l)"

definition WeekDay :: "int \<Rightarrow> int" where
  "WeekDay t = (Day t + 4) mod 7"

definition HourFromTime :: "int \<Rightarrow> int" where
  "HourFromTime t = (t div msPerHour) mod 24"

definition MinFromTime :: "int \<Rightarrow> int" where
  "MinFromTime t = (t div msPerMinute) mod 60"

definition SecFromTime :: "int \<Rightarrow> int" where
  "SecFromTime t = (t div msPerSecond) mod 60"

definition MakeTime :: "int \<Rightarrow> int \<Rightarrow> int \<Rightarrow> int \<Rightarrow> int" where
  "MakeTime h m s milli = h * msPerHour + m * msPerMinute + s * msPerSecond + milli"

text \<open>
  \<open>monthStart mn l\<close> is the day within the year on which month \<open>mn\<close> (0 to 11)
  begins, in a year with \<open>l\<close> leap days; \<^verbatim>\<open>MakeDay\<close> carries a month outside 0 to 11
  into the year, and a day of the month outside the month into the neighbouring months.
\<close>

definition monthStart :: "int \<Rightarrow> int \<Rightarrow> int" where
  "monthStart mn l =
     (if mn = 0 then 0
      else if mn = 1 then 31
      else if mn = 2 then 59 + l
      else if mn = 3 then 90 + l
      else if mn = 4 then 120 + l
      else if mn = 5 then 151 + l
      else if mn = 6 then 181 + l
      else if mn = 7 then 212 + l
      else if mn = 8 then 243 + l
      else if mn = 9 then 273 + l
      else if mn = 10 then 304 + l
      else 334 + l)"

definition MakeDay :: "int \<Rightarrow> int \<Rightarrow> int \<Rightarrow> int" where
  "MakeDay year month date =
     (let ym = year + month div 12;
          mn = month mod 12
      in DayFromYear ym + monthStart mn (if DaysInYear ym = 366 then 1 else 0) + date - 1)"

definition MakeDate :: "int \<Rightarrow> int \<Rightarrow> int" where
  "MakeDate day time = day * msPerDay + time"

definition TimeClip :: "int \<Rightarrow> number" where
  "TimeClip t = (if \<bar>t\<bar> > 8640000000000000 then None else Some t)"

text \<open>
  Local time. The host's time zone is a parameter \<open>tza\<close> of every function that
  reads or builds local time: the offset of local time from UTC in milliseconds
  (\<^verbatim>\<open>LocalTZA\<close> of the standard), taken as constant, that is, a zone without
  daylight saving changes. \<open>tza = 0\<close> is a host running in UTC.
\<close>

definition LocalTime :: "int \<Rightarrow> int \<Rightarrow> int" where
  "LocalTime tza t = t + tza"

definition UTC :: "int \<Rightarrow> int \<Rightarrow> int" where
  "UTC tza t = t - tza"

subsection \<open>Constructors and methods of Date\<close>

text \<open>
  \<^verbatim>\<open>new Date(value)\<close> for a number, and \<^verbatim>\<open>new Date(year, month, date)\<close>, where a
  year from 0 to 99 stands for 1900 to 1999. \<^verbatim>\<open>new Date(year, month)\<close> is
  \<open>Date_ymd tza year month (Some 1)\<close>.
\<close>

definition Date_value :: "number \<Rightarrow> Date" where
  "Date_value v = (case v of None \<Rightarrow> None | Some t \<Rightarrow> TimeClip t)"

definition Date_ymd :: "int \<Rightarrow> number \<Rightarrow> number \<Rightarrow> number \<Rightarrow> Date" where
  "Date_ymd tza year month date =
     (case year of None \<Rightarrow> None | Some y \<Rightarrow>
       (case month of None \<Rightarrow> None | Some m \<Rightarrow>
         (case date of None \<Rightarrow> None | Some dt \<Rightarrow>
            (let yr = (if 0 \<le> y \<and> y \<le> 99 then 1900 + y else y)
             in TimeClip (UTC tza (MakeDate (MakeDay yr m dt) 0))))))"

definition getTime :: "Date \<Rightarrow> number" where
  "getTime d = d"

definition getDay :: "int \<Rightarrow> Date \<Rightarrow> number" where
  "getDay tza d = (case d of None \<Rightarrow> None | Some t \<Rightarrow> Some (WeekDay (LocalTime tza t)))"

definition getDate :: "int \<Rightarrow> Date \<Rightarrow> number" where
  "getDate tza d = (case d of None \<Rightarrow> None | Some t \<Rightarrow> Some (DateFromTime (LocalTime tza t)))"

definition getMonth :: "int \<Rightarrow> Date \<Rightarrow> number" where
  "getMonth tza d = (case d of None \<Rightarrow> None | Some t \<Rightarrow> Some (MonthFromTime (LocalTime tza t)))"

definition getFullYear :: "int \<Rightarrow> Date \<Rightarrow> number" where
  "getFullYear tza d = (case d of None \<Rightarrow> None | Some t \<Rightarrow> Some (YearFromTime (LocalTime tza t)))"

definition getMinutes :: "int \<Rightarrow> Date \<Rightarrow> number" where
  "getMinutes tza d = (case d of None \<Rightarrow> None | Some t \<Rightarrow> Some (MinFromTime (LocalTime tza t)))"

definition getSeconds :: "int \<Rightarrow> Date \<Rightarrow> number" where
  "getSeconds tza d = (case d of None \<Rightarrow> None | Some t \<Rightarrow> Some (SecFromTime (LocalTime tza t)))"

definition getUTCDate :: "Date \<Rightarrow> number" where
  "getUTCDate d = (case d of None \<Rightarrow> None | Some t \<Rightarrow> Some (DateFromTime t))"

definition getUTCMonth :: "Date \<Rightarrow> number" where
  "getUTCMonth d = (case d of None \<Rightarrow> None | Some t \<Rightarrow> Some (MonthFromTime t))"

definition getUTCFullYear :: "Date \<Rightarrow> number" where
  "getUTCFullYear d = (case d of None \<Rightarrow> None | Some t \<Rightarrow> Some (YearFromTime t))"

definition getUTCHours :: "Date \<Rightarrow> number" where
  "getUTCHours d = (case d of None \<Rightarrow> None | Some t \<Rightarrow> Some (HourFromTime t))"

text \<open>
  \<^verbatim>\<open>setDate\<close> and \<^verbatim>\<open>setMonth\<close> change the date they are called on and return its
  new time value; the model returns that value, which the caller passes on as the state
  of the object.
\<close>

definition setDate :: "int \<Rightarrow> Date \<Rightarrow> number \<Rightarrow> Date" where
  "setDate tza d date =
     (case d of None \<Rightarrow> None | Some t0 \<Rightarrow>
       (case date of None \<Rightarrow> None | Some dt \<Rightarrow>
          (let t = LocalTime tza t0;
               newDate = MakeDate (MakeDay (YearFromTime t) (MonthFromTime t) dt) (TimeWithinDay t)
           in TimeClip (UTC tza newDate))))"

definition setMonth :: "int \<Rightarrow> Date \<Rightarrow> number \<Rightarrow> Date" where
  "setMonth tza d month =
     (case d of None \<Rightarrow> None | Some t0 \<Rightarrow>
       (case month of None \<Rightarrow> None | Some m \<Rightarrow>
          (let t = LocalTime tza t0;
               newDate = MakeDate (MakeDay (YearFromTime t) m (DateFromTime t)) (TimeWithinDay t)
           in TimeClip (UTC tza newDate))))"

subsection \<open>Arithmetic and comparison on numbers\<close>

text \<open>
  Arithmetic with \<^verbatim>\<open>NaN\<close> gives \<^verbatim>\<open>NaN\<close>, and every comparison with \<^verbatim>\<open>NaN\<close>
  is false, \<^verbatim>\<open>===\<close> included.
\<close>

definition n_add :: "number \<Rightarrow> number \<Rightarrow> number" where
  "n_add a b = (case a of None \<Rightarrow> None | Some x \<Rightarrow> map_option (\<lambda>y. x + y) b)"

definition n_sub :: "number \<Rightarrow> number \<Rightarrow> number" where
  "n_sub a b = (case a of None \<Rightarrow> None | Some x \<Rightarrow> map_option (\<lambda>y. x - y) b)"

definition n_mul :: "number \<Rightarrow> number \<Rightarrow> number" where
  "n_mul a b = (case a of None \<Rightarrow> None | Some x \<Rightarrow> map_option (\<lambda>y. x * y) b)"

definition n_floor_div :: "number \<Rightarrow> int \<Rightarrow> number" where
  \<comment> \<open>\<^verbatim>\<open>Math.floor(a / k)\<close> for a whole number \<open>a\<close>\<close>
  "n_floor_div a k = map_option (\<lambda>x. x div k) a"

definition n_eq :: "number \<Rightarrow> number \<Rightarrow> bool" where
  "n_eq a b = (case a of None \<Rightarrow> False | Some x \<Rightarrow> (case b of None \<Rightarrow> False | Some y \<Rightarrow> x = y))"

definition n_lt :: "number \<Rightarrow> number \<Rightarrow> bool" where
  "n_lt a b = (case a of None \<Rightarrow> False | Some x \<Rightarrow> (case b of None \<Rightarrow> False | Some y \<Rightarrow> x < y))"

definition n_le :: "number \<Rightarrow> number \<Rightarrow> bool" where
  "n_le a b = (case a of None \<Rightarrow> False | Some x \<Rightarrow> (case b of None \<Rightarrow> False | Some y \<Rightarrow> x \<le> y))"

subsection \<open>Strings\<close>

definition digit_of :: "char \<Rightarrow> int option" where
  \<comment> \<open>the value of a decimal digit; the digits are the characters 48 to 57\<close>
  "digit_of c = (if 48 \<le> (of_char c :: int) \<and> (of_char c :: int) \<le> 57 then Some (of_char c - 48) else None)"

fun digits_value :: "int \<Rightarrow> string \<Rightarrow> int option" where
  "digits_value acc [] = Some acc"
| "digits_value acc (c # cs) =
     (case digit_of c of None \<Rightarrow> None | Some v \<Rightarrow> digits_value (10 * acc + v) cs)"

text \<open>
  \<^verbatim>\<open>ToNumber\<close> of a string, for the strings a field of a \<^verbatim>\<open>DD-MM-YYYY\<close> text can
  be: the empty string is 0 and a run of decimal digits is its value. The other numeric
  literals of the language (a sign, a fraction, an exponent, a radix prefix, white space
  around the digits) are outside the model and read as \<^verbatim>\<open>NaN\<close>, as every text
  that is no number does. \<^verbatim>\<open>undefined\<close>, the value of an index outside an array, is
  \<open>None\<close> and converts to \<^verbatim>\<open>NaN\<close>.
\<close>

definition ToNumber :: "string option \<Rightarrow> number" where
  "ToNumber v = (case v of None \<Rightarrow> None | Some s \<Rightarrow> digits_value 0 s)"

definition digit_char :: "int \<Rightarrow> char" where
  "digit_char v = (if 0 \<le> v \<and> v \<le> 9 then ''0123456789'' ! nat v else CHR ''?'')"

fun digits :: "nat \<Rightarrow> string" where
  "digits n = (if n < 10 then [digit_char (int n)] else digits (n div 10) @ [digit_char (int (n mod 10))])"

declare digits.simps [simp del]

text \<open>\<^verbatim>\<open>ToString\<close> of a number, as a template literal applies it.\<close>

definition ToString :: "number \<Rightarrow> string" where
  "ToString v =
     (case v of None \<Rightarrow> ''NaN''
      | Some n \<Rightarrow> (if n < 0 then CHR ''-'' # digits (nat (- n)) else digits (nat n)))"

text \<open>\<^verbatim>\<open>s.split(sep)\<close> for a separator of one character, and \<^verbatim>\<open>parts[i]\<close>.\<close>

fun str_split :: "char \<Rightarrow> string \<Rightarrow> string list" where
  "str_split sep [] = [[]]"
| "str_split sep (c # cs) =
     (if c = sep then [] # str_split sep cs
      else (case str_split sep cs of [] \<Rightarrow> [[c]] | p # ps \<Rightarrow> (c # p) # ps))"

definition at_index :: "'a list \<Rightarrow> nat \<Rightarrow> 'a option" where
  "at_index xs i = (if i < length xs then Some (xs ! i) else None)"

subsection \<open>Date.parse\<close>

text \<open>
  \<^verbatim>\<open>Date.parse\<close>, and \<^verbatim>\<open>new Date(text)\<close>, which parses alike. The language
  standard fixes the date-time format \<^verbatim>\<open>YYYY-MM-DDTHH:mm:ss.sssZ\<close> and its date-only
  form \<^verbatim>\<open>YYYY-MM-DD\<close>, both read as UTC; \<open>parse_iso\<close> recognises the texts of these
  two forms that denote a date of the calendar. What an engine makes of every other
  text is its own matter (it may know more formats, and answers \<^verbatim>\<open>NaN\<close> for a text
  it does not recognise): that is the parameter \<open>fallback\<close>.
\<close>

definition digitsAt :: "nat \<Rightarrow> nat \<Rightarrow> string \<Rightarrow> int option" where
  "digitsAt pos len s = digits_value 0 (take len (drop pos s))"

definition leapDays :: "int \<Rightarrow> int" where
  "leapDays y = (if DaysInYear y = 366 then 1 else 0)"

definition DaysInMonth :: "int \<Rightarrow> int \<Rightarrow> int" where
  \<comment> \<open>the days of month \<open>m\<close> (0 to 11) of year \<open>y\<close>\<close>
  "DaysInMonth y m =
     (if m = 1 then 28 + leapDays y
      else if m = 3 \<or> m = 5 \<or> m = 8 \<or> m = 10 then 30
      else 31)"

definition parse_date :: "string \<Rightarrow> int option" where
  "parse_date s =
     (if length s = 10 \<and> s ! 4 = CHR ''-'' \<and> s ! 7 = CHR ''-'' then
        (case digitsAt 0 4 s of None \<Rightarrow> None | Some y \<Rightarrow>
          (case digitsAt 5 2 s of None \<Rightarrow> None | Some m \<Rightarrow>
            (case digitsAt 8 2 s of None \<Rightarrow> None | Some d \<Rightarrow>
               (if 1 \<le> m \<and> m \<le> 12 \<and> 1 \<le> d \<and> d \<le> DaysInMonth y (m - 1)
                then Some (MakeDay y (m - 1) d) else None))))
      else None)"

definition parse_time :: "string \<Rightarrow> int option" where
  "parse_time s =
     (if length s = 14 \<and> s ! 0 = CHR ''T'' \<and> s ! 3 = CHR '':'' \<and> s ! 6 = CHR '':''
         \<and> s ! 9 = CHR ''.'' \<and> s ! 13 = CHR ''Z'' then
        (case digitsAt 1 2 s of None \<Rightarrow> None | Some h \<Rightarrow>
          (case digitsAt 4 2 s of None \<Rightarrow> None | Some mi \<Rightarrow>
            (case digitsAt 7 2 s of None \<Rightarrow> None | Some sec \<Rightarrow>
              (case digitsAt 10 3 s of None \<Rightarrow> None | Some milli \<Rightarrow>
                 (if h \<le> 23 \<and> mi \<le> 59 \<and> sec \<le> 59
                  then Some (MakeTime h mi sec milli) else None)))))
      else None)"

definition parse_iso :: "string \<Rightarrow> int option" where
  "parse_iso s =
     (if length s = 10 then map_option (\<lambda>day. MakeDate day 0) (parse_date s)
      else (case parse_date (take 10 s) of None \<Rightarrow> None | Some day \<Rightarrow>
             (case parse_time (drop 10 s) of None \<Rightarrow> None | Some time \<Rightarrow>
                Some (MakeDate day time))))"

definition Date_parse :: "(string \<Rightarrow> number) \<Rightarrow> string \<Rightarrow> number" where
  "Date_parse fallback s =
     (case parse_iso s of None \<Rightarrow> fallback s | Some t \<Rightarrow> TimeClip t)"

definition noFallback :: "string \<Rightarrow> number" where
  \<comment> \<open>an engine that recognises no text beyond the standard's format\<close>
  "noFallback s = None"

section \<open>The functions of the repository\<close>

text \<open>
  No function of the source contains a \<^verbatim>\<open>throw\<close>, and the built-ins they call on
  numbers and strings do not throw either. For the two functions of which the
  specification says that they fail with an error, the model's result is \<open>error + value\<close>,
  so that it can be said which of the two a call returns.
\<close>

datatype error = ParseError | InvalidArgument

subsection \<open>dateToTimestamp\<close>

definition dateToTimestamp :: "(string \<Rightarrow> number) \<Rightarrow> string \<Rightarrow> error + number" where
  "dateToTimestamp fallback date = Inr (Date_parse fallback date)"

subsection \<open>getNextFriday\<close>

definition getNextFriday :: "int \<Rightarrow> Date \<Rightarrow> Date" where
  "getNextFriday tza date =
     (let millisecondsInDay = Some (24 * 60 * 60 * 1000);
          dateInMilliseconds = getTime date;
          dateDay = getDay tza date
      in if n_eq dateDay (Some 5) then
           Date_value (n_add dateInMilliseconds (n_mul (Some 7) millisecondsInDay))
         else if n_lt dateDay (Some 5) then
           Date_value (n_add dateInMilliseconds (n_mul (n_sub (Some 5) dateDay) millisecondsInDay))
         else Date_value (n_add dateInMilliseconds (n_mul (Some 6) millisecondsInDay)))"

subsection \<open>getCountDaysOnPeriod\<close>

text \<open>The quotient is not rounded: the result is a rational number, or \<^verbatim>\<open>NaN\<close>.\<close>

definition getCountDaysOnPeriod :: "(string \<Rightarrow> number) \<Rightarrow> string \<Rightarrow> string \<Rightarrow> rat option" where
  "getCountDaysOnPeriod fallback dateStart dateEnd =
     (let millisecondsInDay = 24 * 60 * 60 * 1000
      in case Date_parse fallback dateEnd of None \<Rightarrow> None | Some e \<Rightarrow>
           (case Date_parse fallback dateStart of None \<Rightarrow> None | Some s \<Rightarrow>
              Some (1 + of_int (e - s) / of_int millisecondsInDay)))"

subsection \<open>formatDate\<close>

definition formatDate :: "int \<Rightarrow> (string \<Rightarrow> number) \<Rightarrow> string \<Rightarrow> string" where
  "formatDate tza fallback date =
     (let d = Date_parse fallback date;
          day = getUTCDate d;
          month = n_add (getUTCMonth d) (Some 1);
          year = getUTCFullYear d;
          hour0 = getUTCHours d;
          hour = (if n_le (Some 12) hour0 \<and> n_lt (Some 12) hour0 then n_sub hour0 (Some 12) else hour0);
          option = (if n_le (Some 12) hour0 then ''PM'' else ''AM'');
          min = (if n_lt (getMinutes tza d) (Some 10) then ''0'' @ ToString (getMinutes tza d)
                 else ToString (getMinutes tza d));
          sec = (if n_lt (getSeconds tza d) (Some 10) then ''0'' @ ToString (getSeconds tza d)
                 else ToString (getSeconds tza d))
      in ToString month @ ''/'' @ ToString day @ ''/'' @ ToString year @ '', '' @ ToString hour
           @ '':'' @ min @ '':'' @ sec @ '' '' @ option)"

subsection \<open>getCountWeekendsInMonth\<close>

definition getCountWeekendsInMonth :: "int \<Rightarrow> int \<Rightarrow> int \<Rightarrow> number" where
  "getCountWeekendsInMonth tza month year =
     (let day0 = getDay tza (Date_ymd tza (Some year) (Some (month - 1)) (Some 1));
          day = (if n_eq day0 (Some 0) then Some 7 else day0);
          countDays =
            (if month = 12 then Some 31
             else (let nextMonth = Date_ymd tza (Some year) (Some month) (Some 1)
                   in getDate tza (Date_value
                        (setDate tza nextMonth (n_sub (getDate tza nextMonth) (Some 1))))));
          count0 = Some 0;
          count1 = (if n_le day (Some 6) then n_add count0 (Some 2) else count0);
          count2 = (if n_eq day (Some 7) then n_add count1 (Some 1) else count1);
          remainDay0 = n_sub countDays (n_add (n_sub (Some 7) day) (Some 1));
          fullWeekend = n_floor_div remainDay0 7;
          count3 = n_add count2 (n_mul fullWeekend (Some 2));
          remainDay = n_sub remainDay0 (n_mul fullWeekend (Some 7))
      in if n_eq remainDay (Some 6) then n_add count3 (Some 1) else count3)"

subsection \<open>getWeekNumberByDate\<close>

text \<open>
  The source's \<^verbatim>\<open>%\<close> is the remainder of the division that truncates towards zero.
  \<open>countDays\<close> is a quotient, so the intermediate values are rational.
\<close>

definition js_rem :: "rat \<Rightarrow> rat \<Rightarrow> rat" where
  "js_rem x y = x - y * of_int (if 0 \<le> x / y then \<lfloor>x / y\<rfloor> else \<lceil>x / y\<rceil>)"

definition getWeekNumberByDate :: "int \<Rightarrow> Date \<Rightarrow> number" where
  "getWeekNumberByDate tza date =
     (let year = getFullYear tza date;
          jan1 = Date_ymd tza year (Some 0) (Some 1)
      in case getDay tza jan1 of None \<Rightarrow> None | Some firstDay0 \<Rightarrow>
          (case date of None \<Rightarrow> None | Some t \<Rightarrow>
            (case jan1 of None \<Rightarrow> None | Some t0 \<Rightarrow>
               (let firstDay = (if firstDay0 = 0 then 7 else firstDay0);
                    millisecondsInDay = 1000 * 60 * 60 * 24;
                    countDays = 1 + of_int (t - t0) / of_int millisecondsInDay;
                    count0 = (if firstDay \<le> 4 then 1 else 0);
                    remainDay = countDays - of_int (7 - firstDay + 1);
                    fullWeekend = \<lfloor>remainDay / 7\<rfloor>;
                    count1 = count0 + fullWeekend
                in Some (if js_rem remainDay 7 \<noteq> 0 then count1 + 1 else count1)))))"

subsection \<open>getNextFridayThe13th\<close>

text \<open>
  \<^verbatim>\<open>resultDate\<close> is the argument itself, not a copy: the function changes the date it
  is given and returns it. The model passes the time value of that one object along.
  The loop has no bound; a run that never leaves it is the value \<open>None\<close>.
\<close>

partial_function (option) friday13_loop :: "int \<Rightarrow> Date \<Rightarrow> Date option" where
  "friday13_loop tza resultDate =
     (if \<not> n_eq (getDay tza resultDate) (Some 5)
      then friday13_loop tza (setMonth tza resultDate (n_add (getMonth tza resultDate) (Some 1)))
      else Some resultDate)"

declare friday13_loop.simps [code]

definition getNextFridayThe13th :: "int \<Rightarrow> Date \<Rightarrow> Date option" where
  "getNextFridayThe13th tza date =
     (let resultDate1 = (if n_lt (Some 13) (getDate tza date)
                         then setMonth tza date (n_add (getMonth tza date) (Some 1))
                         else date);
          resultDate2 = setDate tza resultDate1 (Some 13)
      in friday13_loop tza resultDate2)"

subsection \<open>getWorkSchedule\<close>

record DatePeriod =
  start :: string
  end' :: string

text \<open>
  The state of the loop is the running time \<^verbatim>\<open>start\<close>, the counter \<^verbatim>\<open>count\<close> and
  the array \<^verbatim>\<open>arr\<close>; \<open>schedule_body\<close> is one pass through the body of the loop. The
  loop is entered only while \<^verbatim>\<open>end >= start\<close> holds, which is false when either is
  \<^verbatim>\<open>NaN\<close>, so inside it both are numbers.
\<close>

record schedule_state =
  startT :: int
  count :: int
  arr :: "string list"

definition schedule_body :: "int \<Rightarrow> int \<Rightarrow> int \<Rightarrow> schedule_state \<Rightarrow> schedule_state" where
  "schedule_body tza countWorkDays millisecondsInOffDays st =
     (let millisecondsInDays = 1000 * 60 * 60 * 24;
          startDate = Date_value (Some (startT st));
          startDateDate =
            (if n_lt (getDate tza startDate) (Some 10) then ''0'' @ ToString (getDate tza startDate)
             else ToString (getDate tza startDate));
          startDateMonth =
            (if n_lt (getMonth tza startDate) (Some 9)
             then ''0'' @ ToString (n_add (getMonth tza startDate) (Some 1))
             else ToString (n_add (getMonth tza startDate) (Some 1)))
      in if count st = countWorkDays then
           st\<lparr>startT := startT st + millisecondsInOffDays, count := 0\<rparr>
         else
           st\<lparr>arr := arr st @ [startDateDate @ ''-'' @ startDateMonth @ ''-''
                               @ ToString (getFullYear tza startDate)],
              count := count st + 1,
              startT := startT st + millisecondsInDays\<rparr>)"

partial_function (option) schedule_loop ::
    "int \<Rightarrow> int \<Rightarrow> int \<Rightarrow> int \<Rightarrow> schedule_state \<Rightarrow> string list option" where
  "schedule_loop tza countWorkDays millisecondsInOffDays endT st =
     (if endT \<ge> startT st
      then schedule_loop tza countWorkDays millisecondsInOffDays endT
             (schedule_body tza countWorkDays millisecondsInOffDays st)
      else Some (arr st))"

declare schedule_loop.simps [code]

definition period_time :: "int \<Rightarrow> string \<Rightarrow> number" where
  \<comment> \<open>\<^verbatim>\<open>new Date(s.split('-')[2], s.split('-')[1] - 1, s.split('-')[0]).getTime()\<close>\<close>
  "period_time tza s =
     getTime (Date_ymd tza
        (ToNumber (at_index (str_split CHR ''-'' s) 2))
        (n_sub (ToNumber (at_index (str_split CHR ''-'' s) 1)) (Some 1))
        (ToNumber (at_index (str_split CHR ''-'' s) 0)))"

definition getWorkSchedule ::
    "int \<Rightarrow> DatePeriod \<Rightarrow> int \<Rightarrow> int \<Rightarrow> (error + string list) option" where
  "getWorkSchedule tza period countWorkDays countOffDays =
     (let millisecondsInOffDays = 1000 * 60 * 60 * 24 * countOffDays
      in case period_time tza (start period) of None \<Rightarrow> Some (Inr [])
         | Some start0 \<Rightarrow>
             (case period_time tza (end' period) of None \<Rightarrow> Some (Inr [])
              | Some endT \<Rightarrow>
                  map_option Inr
                    (schedule_loop tza countWorkDays millisecondsInOffDays endT
                       \<lparr>startT = start0, count = 0, arr = []\<rparr>)))"

section \<open>What the specification speaks of\<close>






section \<open>Verification\<close>

subsection \<open>Evaluation\<close>

text \<open>
  The defining equations, grouped for evaluating the model on concrete inputs. A bound
  value is computed before it is substituted (\<open>let_weak_cong\<close>).
\<close>

lemmas cal_defs = msPerDay_def msPerHour_def msPerMinute_def msPerSecond_def Day_def
  TimeWithinDay_def DaysInYear_def DayFromYear_def YearFromDay_def YearFromTime_def
  InLeapYear_def DayWithinYear_def MonthFromTime_def DateFromTime_def WeekDay_def
  HourFromTime_def MinFromTime_def SecFromTime_def MakeTime_def monthStart_def MakeDay_def
  MakeDate_def TimeClip_def LocalTime_def UTC_def leapDays_def DaysInMonth_def

lemmas date_defs = Date_value_def Date_ymd_def getTime_def getDay_def getDate_def getMonth_def
  getFullYear_def getMinutes_def getSeconds_def getUTCDate_def getUTCMonth_def
  getUTCFullYear_def getUTCHours_def setDate_def setMonth_def

lemmas num_defs = n_add_def n_sub_def n_mul_def n_floor_div_def n_eq_def n_lt_def n_le_def

lemmas str_defs = digit_of_def ToNumber_def digit_char_def digits.simps ToString_def
  at_index_def digitsAt_def parse_date_def parse_time_def parse_iso_def Date_parse_def
  noFallback_def

lemmas src_defs = dateToTimestamp_def getNextFriday_def getCountDaysOnPeriod_def formatDate_def
  getCountWeekendsInMonth_def getWeekNumberByDate_def js_rem_def getNextFridayThe13th_def
  schedule_body_def period_time_def getWorkSchedule_def

subsection \<open>The calendar: years\<close>
















subsection \<open>The calendar: months and days\<close>









subsection \<open>Dates within the range of Date\<close>












subsection \<open>getCountWeekendsInMonth\<close>











subsection \<open>getNextFriday\<close>








subsection \<open>getCountDaysOnPeriod\<close>



subsection \<open>getWorkSchedule\<close>




lemma schedule_body_progress:
  assumes "1 \<le> off"
  shows "startT st + msPerDay \<le> startT (schedule_body tza w (1000 * 60 * 60 * 24 * off) st)"
  using assms unfolding schedule_body_def Let_def msPerDay_def by simp







text \<open>With at least one day off, the loop ends, whatever the other arguments are.\<close>

lemma schedule_loop_terminates:
  assumes off: "1 \<le> off"
  shows "\<exists>res. schedule_loop tza w (1000 * 60 * 60 * 24 * off) e st = Some res"
proof (induction "nat (e - startT st + 1)" arbitrary: st rule: less_induct)
  case less
  show ?case
  proof (cases "startT st \<le> e")
    case False
    then have "schedule_loop tza w (1000 * 60 * 60 * 24 * off) e st = Some (arr st)"
      by (subst schedule_loop.simps) simp
    then show ?thesis by blast
  next
    case True
    let ?st' = "schedule_body tza w (1000 * 60 * 60 * 24 * off) st"
    have step: "schedule_loop tza w (1000 * 60 * 60 * 24 * off) e st
        = schedule_loop tza w (1000 * 60 * 60 * 24 * off) e ?st'"
      by (subst schedule_loop.simps) (use True in simp)
    have "startT st + msPerDay \<le> startT ?st'"
      by (rule schedule_body_progress [OF off])
    then have "nat (e - startT ?st' + 1) < nat (e - startT st + 1)"
      using True unfolding msPerDay_def by linarith
    from less.hyps [OF this] show ?thesis unfolding step .
  qed
qed











lemma getWorkSchedule_returns:
  assumes "1 \<le> off"
  shows "\<exists>res. getWorkSchedule tza period w off = Some (Inr res)"
proof (cases "period_time tza (start period)")
  case None
  then show ?thesis unfolding getWorkSchedule_def Let_def by simp
next
  case s: (Some s)
  show ?thesis
  proof (cases "period_time tza (end' period)")
    case None
    then show ?thesis unfolding getWorkSchedule_def Let_def s by simp
  next
    case e: (Some e)
    obtain res where "schedule_loop tza w (1000 * 60 * 60 * 24 * off) e
        \<lparr>startT = s, count = 0, arr = []\<rparr> = Some res"
      using schedule_loop_terminates [OF assms] by blast
    then show ?thesis unfolding getWorkSchedule_def Let_def s e by simp
  qed
qed


section \<open>The claims\<close>

text \<open>
  C1. The claim: for every valid date \<^verbatim>\<open>getWeekNumberByDate\<close> returns a week number
  from 1 to 53, never less than 1, also in the first days of a January that begins on a
  Friday, Saturday or Sunday. The code does not: 1 January 2021 is a Friday, and for
  \<^verbatim>\<open>new Date(2021, 0, 1)\<close> the function returns 0 (on a host in UTC).
\<close>

theorem week_number_of_2021_01_01:
  "getWeekNumberByDate 0 (Date_ymd 0 (Some 2021) (Some 0) (Some 1)) = Some 0"
  by code_simp






text \<open>
  C4. The claim: \<^verbatim>\<open>getNextFridayThe13th\<close> searches month by month, from the 13th of
  the month of the date when its day is at most 13 and from the 13th of the next month
  when it is later. The code moves to the next month before it sets the day to 13, so
  from 31 January 2026 it reaches 31 February, that is 3 March, and begins at 13 March:
  it returns 13 March 2026 although 13 February 2026 is a Friday.
\<close>

theorem friday_13th_after_2026_01_31:
  "getNextFridayThe13th 0 (Date_ymd 0 (Some 2026) (Some 0) (Some 31))
     = Some (Date_ymd 0 (Some 2026) (Some 2) (Some 13))
   \<and> getDay 0 (Date_ymd 0 (Some 2026) (Some 1) (Some 13)) = Some 5"
  by (simp add: friday13_loop.simps src_defs cal_defs date_defs num_defs Let_def cong: let_weak_cong)






text \<open>
  C7. The claim: \<^verbatim>\<open>formatDate\<close> renders the hour on the 12-hour clock, with hour 0
  of UTC as 12, and the minutes and seconds of the same UTC instant. The code leaves
  hour 0 as it is: half past midnight is rendered \<^verbatim>\<open>0:30:00 AM\<close>. And it reads the
  minutes and seconds in local time: on a host five and a half hours ahead of UTC, the
  doc comment's \<^verbatim>\<open>2024-02-01T15:00:00.000Z\<close> is rendered with the minutes 30.
\<close>

theorem format_midnight_hour:
  "formatDate 0 noFallback ''2024-02-01T00:30:00.000Z'' = ''2/1/2024, 0:30:00 AM''
   \<and> formatDate 19800000 noFallback ''2024-02-01T15:00:00.000Z'' = ''2/1/2024, 3:30:00 PM''"
  by (simp add: src_defs str_defs cal_defs date_defs num_defs Let_def cong: let_weak_cong)

text \<open>
  C8. The claim: for a text that is not a recognisable date, \<^verbatim>\<open>dateToTimestamp\<close>
  fails with a ParseError. The code has no error to fail with: it returns what
  \<^verbatim>\<open>Date.parse\<close> returns. As amended: for a text that is neither in the standard's
  format nor recognised by the engine otherwise, \<^verbatim>\<open>dateToTimestamp\<close> returns
  \<^verbatim>\<open>NaN\<close>, and for every text it returns a value and no error.
\<close>

theorem dateToTimestamp_never_fails:
  "(parse_iso s = None \<and> fallback s = None \<longrightarrow> dateToTimestamp fallback s = Inr None)
   \<and> (\<exists>v. dateToTimestamp fallback s = Inr v)"
  unfolding dateToTimestamp_def Date_parse_def by simp

theorem dateToTimestamp_never_fails_witness:
  "parse_iso ''31/12/2024'' = None \<and> noFallback ''31/12/2024'' = None
   \<and> dateToTimestamp noFallback ''31/12/2024'' = Inr None
   \<and> (\<exists>v. dateToTimestamp noFallback ''31/12/2024'' = Inr v)"
proof -
  have "parse_iso ''31/12/2024'' = None \<and> noFallback ''31/12/2024'' = None"
    by (simp add: str_defs)
  with dateToTimestamp_never_fails [of "''31/12/2024''" noFallback] show ?thesis by blast
qed

text \<open>The claim as stated fails for the text \<^verbatim>\<open>not a date\<close>: the call returns \<^verbatim>\<open>NaN\<close>.\<close>

theorem dateToTimestamp_unrecognised_text:
  "dateToTimestamp noFallback ''not a date'' = Inr None"
  by (simp add: src_defs str_defs)




text \<open>
  C10. \<^verbatim>\<open>getWorkSchedule\<close> returns an array whenever the cycle has at least one day
  off, for every period and every count of working days: each pass through the body of
  the loop moves the running time on by at least one day.
\<close>

theorem work_schedule_terminates:
  assumes "1 \<le> countOffDays"
  shows "(\<exists>res. getWorkSchedule tza period countWorkDays countOffDays = Some (Inr res))
     \<and> (\<forall>st. startT st + msPerDay
            \<le> startT (schedule_body tza countWorkDays (1000 * 60 * 60 * 24 * countOffDays) st))"
  using getWorkSchedule_returns [OF assms] schedule_body_progress [OF assms] by blast

theorem work_schedule_terminates_witness:
  "(1::int) \<le> 3
   \<and> (\<exists>res. getWorkSchedule 0 \<lparr>start = ''01-01-2024'', end' = ''15-01-2024''\<rparr> 1 3 = Some (Inr res))
   \<and> (\<forall>st. startT st + msPerDay \<le> startT (schedule_body 0 1 (1000 * 60 * 60 * 24 * 3) st))"
proof -
  have h: "(1::int) \<le> 3" by simp
  from work_schedule_terminates [OF h, of 0 "\<lparr>start = ''01-01-2024'', end' = ''15-01-2024''\<rparr>" 1]
  show ?thesis by simp
qed

end
